theory Spec2Isabelle
  imports Main "HOL-Library.Word" "HOL-Library.Numeral_Type"
begin

unbundle bit_operations_syntax

section \<open>Data model\<close>

text \<open>
  The parsed lockfile, as \<^verbatim>\<open>json.load\<close> returns it. A Python \<^verbatim>\<open>dict\<close> is an
  association list in insertion order (its keys are distinct); \<^verbatim>\<open>d.get(k)\<close> and
  \<^verbatim>\<open>k in d\<close> are \<open>map_of\<close>, \<^verbatim>\<open>d.items()\<close> is the list itself. A number is
  an integer (the program only tests a number for zero); a string is a list of
  characters with codes below 256.
\<close>

datatype json =
    JNull
  | JBool bool
  | JInt int
  | JStr string
  | JArr "json list"
  | JObj "(string \<times> json) list"

text \<open>The exceptions the script can end with.\<close>

datatype error = AttributeError | TypeError | KeyError | ValueError | BinasciiError

type_synonym byte = "8 word"

text \<open>
  What a failed download prints:
  \<^verbatim>\<open>print(f"Warning: Could not download {url}: {e}")\<close>, kept as the URL value and
  the text of the exception.
\<close>

datatype warning = CouldNotDownload json string

text \<open>
  The list \<^verbatim>\<open>sources\<close> that the traversal appends to, together with the lines
  printed so far.
\<close>

record state =
  sources :: "json list"
  log :: "warning list"

text \<open>
  The library calls that reach outside the program:
  \<^item> \<open>fetch url\<close> is \<^verbatim>\<open>urllib.request.urlopen(url).read()\<close>: the response body, or
    the text of the exception raised;
  \<^item> \<open>sha512 data\<close> is the 512-bit digest \<^verbatim>\<open>hashlib.sha512(data)\<close>;
  \<^item> \<open>url_path url\<close> is \<^verbatim>\<open>urllib.parse.urlparse(url).path\<close> on a string, which
    can raise.
\<close>

record env =
  fetch :: "json \<Rightarrow> string + string"
  sha512 :: "string \<Rightarrow> 512 word"
  url_path :: "string \<Rightarrow> error + string"

section \<open>Python built-ins\<close>

text \<open>Truth value of a JSON value in a condition (\<^verbatim>\<open>not x\<close>).\<close>

fun truthy :: "json \<Rightarrow> bool" where
  "truthy JNull = False"
| "truthy (JBool b) = b"
| "truthy (JInt n) = (n \<noteq> 0)"
| "truthy (JStr s) = (s \<noteq> [])"
| "truthy (JArr xs) = (xs \<noteq> [])"
| "truthy (JObj kvs) = (kvs \<noteq> [])"

definition startswith :: "string \<Rightarrow> string \<Rightarrow> bool" where
  "startswith s p = (take (length p) s = p)"

text \<open>\<^verbatim>\<open>s.replace(c, r)\<close> for a single character \<open>c\<close>.\<close>

definition replace :: "string \<Rightarrow> char \<Rightarrow> string \<Rightarrow> string" where
  "replace s c r = concat (map (\<lambda>x. if x = c then r else [x]) s)"

definition ljust :: "string \<Rightarrow> nat \<Rightarrow> char \<Rightarrow> string" where
  "ljust s w c = s @ replicate (w - length s) c"

text \<open>\<^verbatim>\<open>s.split(c)\<close>: never empty, so \<^verbatim>\<open>[-1]\<close> is \<open>last\<close>.\<close>

fun split :: "string \<Rightarrow> char \<Rightarrow> string list" where
  "split [] c = [[]]"
| "split (x # xs) c =
     (if x = c then [] # split xs c
      else (case split xs c of [] \<Rightarrow> [[x]] | y # ys \<Rightarrow> (x # y) # ys))"

text \<open>\<^verbatim>\<open>isinstance(v, dict)\<close>.\<close>

definition is_dict :: "json \<Rightarrow> bool" where
  "is_dict v = (case v of JObj d \<Rightarrow> True | _ \<Rightarrow> False)"

text \<open>\<^verbatim>\<open>k in x\<close> for a string \<open>k\<close>; on a string it is the substring test.\<close>

fun is_substring :: "string \<Rightarrow> string \<Rightarrow> bool" where
  "is_substring k [] = (k = [])"
| "is_substring k (x # xs) = (startswith (x # xs) k \<or> is_substring k xs)"

fun contains :: "string \<Rightarrow> json \<Rightarrow> error + bool" where
  "contains k (JObj kvs) = Inr (map_of kvs k \<noteq> None)"
| "contains k (JArr xs) = Inr (List.member xs (JStr k))"
| "contains k (JStr s) = Inr (is_substring k s)"
| "contains k v = Inl TypeError"

text \<open>\<^verbatim>\<open>x[k]\<close> for a string \<open>k\<close>; a list or a string takes integer indices only.\<close>

fun subscript :: "json \<Rightarrow> string \<Rightarrow> error + json" where
  "subscript (JObj kvs) k = (case map_of kvs k of None \<Rightarrow> Inl KeyError | Some v \<Rightarrow> Inr v)"
| "subscript v k = Inl TypeError"

subsection \<open>base64.b64decode and bytes.hex\<close>

text \<open>The table \<^verbatim>\<open>table_a2b_base64\<close> of the standard alphabet.\<close>

definition b64val :: "char \<Rightarrow> byte option" where
  "b64val c =
     (let n = (of_char c :: nat) in
      if 65 \<le> n \<and> n \<le> 90 then Some (of_nat (n - 65))
      else if 97 \<le> n \<and> n \<le> 122 then Some (of_nat (n - 71))
      else if 48 \<le> n \<and> n \<le> 57 then Some (of_nat (n + 4))
      else if n = 43 then Some 62
      else if n = 47 then Some 63
      else None)"

text \<open>
  \<^verbatim>\<open>binascii.a2b_base64\<close> without strict mode, the decoder behind
  \<^verbatim>\<open>base64.b64decode(s)\<close>: a character outside the alphabet is discarded, a pad
  that completes a quad ends the input, and leftover characters of an unfinished quad
  raise \<^verbatim>\<open>binascii.Error\<close>. The arguments after the input are \<^verbatim>\<open>quad_pos\<close>,
  \<^verbatim>\<open>leftchar\<close>, \<^verbatim>\<open>pads\<close> and the bytes written.
\<close>

fun a2b_base64 :: "string \<Rightarrow> nat \<Rightarrow> byte \<Rightarrow> nat \<Rightarrow> byte list \<Rightarrow> error + byte list" where
  "a2b_base64 [] quad_pos leftchar pads out =
     (if quad_pos \<noteq> 0 then Inl BinasciiError else Inr out)"
| "a2b_base64 (c # cs) quad_pos leftchar pads out =
     (if c = CHR ''='' then
        (if quad_pos \<ge> 2 \<and> quad_pos + (pads + 1) \<ge> 4 then Inr out
         else a2b_base64 cs quad_pos leftchar (if quad_pos \<ge> 2 then pads + 1 else pads) out)
      else (case b64val c of
          None \<Rightarrow> a2b_base64 cs quad_pos leftchar pads out
        | Some this_ch \<Rightarrow>
            (if quad_pos = 0 then a2b_base64 cs 1 this_ch 0 out
             else if quad_pos = 1 then
               a2b_base64 cs 2 (this_ch AND 0x0f) 0
                 (out @ [push_bit 2 leftchar OR drop_bit 4 this_ch])
             else if quad_pos = 2 then
               a2b_base64 cs 3 (this_ch AND 0x03) 0
                 (out @ [push_bit 4 leftchar OR drop_bit 2 this_ch])
             else
               a2b_base64 cs 0 0 0 (out @ [push_bit 6 leftchar OR this_ch]))))"

text \<open>
  \<^verbatim>\<open>base64.b64decode(s)\<close> on a string: \<^verbatim>\<open>s.encode('ascii')\<close> raises
  \<^verbatim>\<open>ValueError\<close> on a character beyond ASCII.
\<close>

definition b64decode :: "string \<Rightarrow> error + byte list" where
  "b64decode s =
     (if list_all (\<lambda>c. (of_char c :: nat) < 128) s then a2b_base64 s 0 0 0 []
      else Inl ValueError)"

definition hexdigit :: "nat \<Rightarrow> char" where
  "hexdigit n = ''0123456789abcdef'' ! (n mod 16)"

definition byte_hex :: "byte \<Rightarrow> string" where
  "byte_hex b = [hexdigit (unat (drop_bit 4 b)), hexdigit (unat (b AND 0x0f))]"

text \<open>\<^verbatim>\<open>bytes.hex()\<close>.\<close>

definition hex :: "byte list \<Rightarrow> string" where
  "hex bs = concat (map byte_hex bs)"

text \<open>
  \<^verbatim>\<open>hashlib.sha512(data).hexdigest()\<close>: the digest as 64 bytes in hexadecimal.
  \<open>be_bytes n x\<close> is the \<open>n\<close> low bytes of \<open>x\<close>, the most significant first.
\<close>

fun be_bytes :: "nat \<Rightarrow> int \<Rightarrow> byte list" where
  "be_bytes 0 x = []"
| "be_bytes (Suc n) x = be_bytes n (x div 256) @ [of_int (x mod 256)]"

definition digest_bytes :: "512 word \<Rightarrow> byte list" where
  "digest_bytes w = be_bytes 64 (uint w)"

definition hexdigest :: "512 word \<Rightarrow> string" where
  "hexdigest w = hex (digest_bytes w)"

text \<open>\<^verbatim>\<open>d.get(k, default)\<close>.\<close>

definition get :: "(string \<times> json) list \<Rightarrow> string \<Rightarrow> json \<Rightarrow> json" where
  "get d k dflt = (case map_of d k of None \<Rightarrow> dflt | Some v \<Rightarrow> v)"

section \<open>The generator\<close>

text \<open>
  \<^verbatim>\<open>get_sha512(url)\<close>: any exception of the download is caught, a warning is printed
  and \<^verbatim>\<open>None\<close> is returned.
\<close>

definition get_sha512 :: "env \<Rightarrow> json \<Rightarrow> state \<Rightarrow> string option \<times> state" where
  "get_sha512 E url st =
     (case fetch E url of
        Inr data \<Rightarrow> (Some (hexdigest (sha512 E data)), st)
      | Inl e \<Rightarrow> (None, st\<lparr>log := log st @ [CouldNotDownload url e]\<rparr>))"

text \<open>
  Lines 42 to 46 of \<^verbatim>\<open>process_package_lock\<close>, for an integrity string that starts
  with \<^verbatim>\<open>sha512-\<close>: the three \<^verbatim>\<open>replace\<close> calls, the padding and the decoding.
\<close>

definition integrity_to_hex :: "string \<Rightarrow> error + string" where
  "integrity_to_hex integrity =
     (let sha512 = replace (replace (replace (drop 7 integrity) CHR ''/'' []) CHR ''+'' ''-'')
                     CHR ''='' [];
          sha512 = ljust sha512 ((length sha512 + 3) div 4 * 4) CHR ''=''
      in case b64decode sha512 of Inl e \<Rightarrow> Inl e | Inr bs \<Rightarrow> Inr (hex bs))"

text \<open>
  Line 63, \<^verbatim>\<open>urllib.parse.urlparse(url).path.split('/')[-1]\<close>: the last segment of
  the path component of the URL. \<^verbatim>\<open>urlparse\<close> raises on a value that is not a string.
\<close>

definition final_path_segment :: "env \<Rightarrow> json \<Rightarrow> error + string" where
  "final_path_segment E url =
     (case url of
        JStr u \<Rightarrow>
          (case url_path E u of Inl e \<Rightarrow> Inl e | Inr p \<Rightarrow> Inr (last (split p CHR ''/'')))
      | _ \<Rightarrow> Inl AttributeError)"

text \<open>
  Lines 53 to 66: the source dictionary is built with three keys, the destination
  filename is added as the fourth, and the dictionary is appended to \<^verbatim>\<open>sources\<close>.
\<close>

definition add_source :: "env \<Rightarrow> string \<Rightarrow> json \<Rightarrow> string \<Rightarrow> state \<Rightarrow> error + state" where
  "add_source E name url sha512_hex st =
     (case (if startswith name ''node_modules/'' then Inr (drop 13 name)
            else final_path_segment E url) of
        Inl e \<Rightarrow> Inl e
      | Inr dest_name \<Rightarrow>
          Inr (st\<lparr>sources := sources st @
                 [JObj ([(''type'', JStr ''file''), (''url'', url), (''sha512'', JStr sha512_hex)]
                        @ [(''dest-filename'', JStr (''npm-cache/'' @ dest_name))])]\<rparr>))"

text \<open>
  One iteration of the loop over \<^verbatim>\<open>data['packages'].items()\<close>; \<^verbatim>\<open>continue\<close>
  returns the state as it is.
\<close>

definition packages_entry :: "env \<Rightarrow> string \<Rightarrow> json \<Rightarrow> state \<Rightarrow> error + state" where
  "packages_entry E name info st =
     (if name = [] then Inr st
      else (case info of
          JObj d \<Rightarrow>
            (let url = get d ''resolved'' JNull in
             if \<not> truthy url then Inr st
             else (case get d ''integrity'' (JStr []) of
                 JStr integrity \<Rightarrow>
                   (if startswith integrity ''sha512-'' then
                      (case integrity_to_hex integrity of
                         Inl e \<Rightarrow> Inl e
                       | Inr sha512_hex \<Rightarrow> add_source E name url sha512_hex st)
                    else (case get_sha512 E url st of
                        (None, st1) \<Rightarrow> Inr st1
                      | (Some sha512_hex, st1) \<Rightarrow>
                          if sha512_hex = [] then Inr st1
                          else add_source E name url sha512_hex st1))
               | _ \<Rightarrow> Inl AttributeError))
        | _ \<Rightarrow> Inl AttributeError))"

fun process_packages :: "env \<Rightarrow> (string \<times> json) list \<Rightarrow> state \<Rightarrow> error + state" where
  "process_packages E [] st = Inr st"
| "process_packages E ((name, info) # rest) st =
     (case packages_entry E name info st of
        Inl e \<Rightarrow> Inl e
      | Inr st1 \<Rightarrow> process_packages E rest st1)"

text \<open>
  Lines 73 to 91 of \<^verbatim>\<open>process_deps\<close>, for a dictionary \<open>d\<close> that has the key
  \<^verbatim>\<open>resolved\<close>: the result says whether the source was appended (\<open>True\<close>) or the
  iteration ended with \<^verbatim>\<open>continue\<close> (\<open>False\<close>).
\<close>

definition deps_record :: "env \<Rightarrow> (string \<times> json) list \<Rightarrow> state \<Rightarrow> error + bool \<times> state" where
  "deps_record E d st =
     (let url = get d ''resolved'' JNull in
      case get d ''integrity'' (JStr []) of
        JStr integrity \<Rightarrow>
          (case (if startswith integrity ''sha512-'' then (Some (drop 7 integrity), st)
                 else (case get_sha512 E url st of
                     (None, st1) \<Rightarrow> (None, st1)
                   | (Some sha512_hex, st1) \<Rightarrow>
                       if sha512_hex = [] then (None, st1) else (Some sha512_hex, st1))) of
             (None, st1) \<Rightarrow> Inr (False, st1)
           | (Some sha512_hex, st1) \<Rightarrow>
               (case url of
                  JStr u \<Rightarrow>
                    Inr (True, st1\<lparr>sources := sources st1 @
                      [JObj [(''type'', JStr ''file''), (''url'', url),
                             (''sha512'', JStr sha512_hex),
                             (''dest-filename'', JStr (''npm-cache/'' @ last (split u CHR ''/'')))]]\<rparr>)
                | _ \<Rightarrow> Inl AttributeError))
      | _ \<Rightarrow> Inl AttributeError)"

text \<open>
  \<^verbatim>\<open>process_deps(deps, prefix)\<close>: the nested dependencies are processed inside the
  block of a record that has \<^verbatim>\<open>resolved\<close>, after its source was appended. The
  recursion ends because the nested dictionary is a part of the record; the recursion
  limit of the interpreter is not modelled.
\<close>

function process_deps :: "env \<Rightarrow> (string \<times> json) list \<Rightarrow> string \<Rightarrow> state \<Rightarrow> error + state" where
  "process_deps E [] prefix st = Inr st"
| "process_deps E ((name, info) # rest) prefix st =
     (case info of
        JObj d \<Rightarrow>
          (if map_of d ''resolved'' \<noteq> None then
             (case deps_record E d st of
                Inl e \<Rightarrow> Inl e
              | Inr (False, st1) \<Rightarrow> process_deps E rest prefix st1
              | Inr (True, st1) \<Rightarrow>
                  (case map_of d ''dependencies'' of
                     None \<Rightarrow> process_deps E rest prefix st1
                   | Some (JObj nested) \<Rightarrow>
                       (case process_deps E nested (prefix @ name @ ''/'') st1 of
                          Inl e \<Rightarrow> Inl e
                        | Inr st2 \<Rightarrow> process_deps E rest prefix st2)
                   | Some _ \<Rightarrow> Inl AttributeError))
           else process_deps E rest prefix st)
      | _ \<Rightarrow> process_deps E rest prefix st)"
  by pat_completeness auto
termination
proof -
  have smaller: "size v < size (JObj d)" if "map_of d k = Some v" for d :: "(string \<times> json) list" and k v
    using that by (induction d) (auto split: if_splits)
  show ?thesis
    by (relation "measure (\<lambda>(E, deps, prefix, st). size (JObj deps))")
       (auto dest: smaller)
qed

definition no_sources :: state where
  "no_sources = \<lparr>sources = [], log = []\<rparr>"

text \<open>
  \<^verbatim>\<open>process_package_lock\<close> on the parsed document: \<^verbatim>\<open>.items()\<close> exists on a
  dictionary only.
\<close>

definition process_package_lock :: "env \<Rightarrow> json \<Rightarrow> error + state" where
  "process_package_lock E data =
     (case contains ''packages'' data of
        Inl e \<Rightarrow> Inl e
      | Inr True \<Rightarrow>
          (case subscript data ''packages'' of
             Inl e \<Rightarrow> Inl e
           | Inr (JObj items) \<Rightarrow> process_packages E items no_sources
           | Inr _ \<Rightarrow> Inl AttributeError)
      | Inr False \<Rightarrow>
          (case contains ''dependencies'' data of
             Inl e \<Rightarrow> Inl e
           | Inr True \<Rightarrow>
               (case subscript data ''dependencies'' of
                  Inl e \<Rightarrow> Inl e
                | Inr (JObj deps) \<Rightarrow> process_deps E deps [] no_sources
                | Inr _ \<Rightarrow> Inl AttributeError)
           | Inr False \<Rightarrow> Inr no_sources))"


section \<open>Reference definitions\<close>

text \<open>
  The hash resolution as the specification words it: the remainder after the tag is
  standard base64, with the URL-safe substitutions undone (\<open>-\<close> for \<open>+\<close>, \<open>_\<close> for
  \<open>/\<close>) and the padding restored; the decoded bytes are rendered as lowercase
  hexadecimal.
\<close>

definition spec_integrity_hex :: "string \<Rightarrow> error + string" where
  "spec_integrity_hex integrity =
     (let b64 = map (\<lambda>c. if c = CHR ''-'' then CHR ''+'' else if c = CHR ''_'' then CHR ''/'' else c)
                  (drop 7 integrity);
          b64 = filter (\<lambda>c. c \<noteq> CHR ''='') b64;
          b64 = ljust b64 ((length b64 + 3) div 4 * 4) CHR ''=''
      in case b64decode b64 of Inl e \<Rightarrow> Inl e | Inr bs \<Rightarrow> Inr (hex bs))"

subsection \<open>An environment for the examples\<close>

text \<open>
  The path component of a URL of the form \<^verbatim>\<open>scheme://host/path?query#fragment\<close>, as
  \<^verbatim>\<open>urlparse\<close> gives it for such a URL.
\<close>

definition plain_url_path :: "string \<Rightarrow> error + string" where
  "plain_url_path u =
     (let after_scheme = drop 1 (dropWhile (\<lambda>c. c \<noteq> CHR '':'') u);
          after_host = dropWhile (\<lambda>c. \<not> List.member ''/?#'' c) (drop 2 after_scheme)
      in Inr (takeWhile (\<lambda>c. \<not> List.member ''?#'' c) after_host))"

text \<open>
  One URL answers, with an empty body; every other download fails. The digest of the
  empty body is the SHA-512 test vector for the empty message.
\<close>

definition example_env :: env where
  "example_env =
     \<lparr>fetch = (\<lambda>url. if url = JStr ''https://x/empty-1.0.tgz'' then Inr []
                      else Inl ''urlopen error''),
      sha512 = (\<lambda>data. if data = [] then
          0xcf83e1357eefb8bdf1542850d66d8007d620e4050b5715dc83f4a921d36ce9ce47d0d13c5d85f2b0ff8318d2877eec2f63b931bd47417a81a538327af927da3e
        else 0),
      url_path = plain_url_path\<rparr>"

subsection \<open>Shapes of the output\<close>





section \<open>Hash resolution\<close>

text \<open>
  Claim C1. For a flat-form entry whose integrity string begins with \<^verbatim>\<open>sha512-\<close>, the
  emitted hash should be the lowercase hexadecimal of the digest that the base64
  remainder encodes. On the test vector of the empty message, whose base64 text holds
  one \<open>/\<close> and two \<open>+\<close>, the program deletes the \<open>/\<close> and turns each \<open>+\<close> into a
  \<open>-\<close> that the decoder discards: it emits 62 bytes that differ from the digest from
  the 39th byte on, where the digest is 64 bytes.
\<close>

theorem flat_integrity_test_vector:
  "process_package_lock E
     (JObj [(''packages'', JObj
        [([], JObj [(''name'', JStr ''app'')]),
         (''node_modules/foo'', JObj
            [(''resolved'', JStr ''https://x/foo-1.0.tgz''),
             (''integrity'', JStr ''sha512-z4PhNX7vuL3xVChQ1m2AB9Yg5AULVxXcg/SpIdNs6c5H0NE8XYXysP+DGNKHfuwvY7kxvUdBeoGlODJ6+SfaPg=='')])])])
   = Inr \<lparr>sources = [JObj [(''type'', JStr ''file''), (''url'', JStr ''https://x/foo-1.0.tgz''),
        (''sha512'', JStr ''cf83e1357eefb8bdf1542850d66d8007d620e4050b5715dc812a4874db3a7391f4344f17617cac3c318d2877eec2f63b931bd47417a81a538327a49f68f8''),
        (''dest-filename'', JStr ''npm-cache/foo'')]], log = []\<rparr>
   \<and> spec_integrity_hex ''sha512-z4PhNX7vuL3xVChQ1m2AB9Yg5AULVxXcg/SpIdNs6c5H0NE8XYXysP+DGNKHfuwvY7kxvUdBeoGlODJ6+SfaPg==''
     = Inr ''cf83e1357eefb8bdf1542850d66d8007d620e4050b5715dc83f4a921d36ce9ce47d0d13c5d85f2b0ff8318d2877eec2f63b931bd47417a81a538327af927da3e''"
  by code_simp

text \<open>
  Claim C3. The tree form should resolve a \<^verbatim>\<open>sha512-\<close> integrity string to the same
  hexadecimal hash as the flat form. For one and the same integrity string (the digest
  of the message \<^verbatim>\<open>26\<close>, whose base64 text has neither \<open>+\<close> nor \<open>/\<close>), the tree form
  emits the base64 text itself and the flat form emits the hexadecimal digest.
\<close>

theorem tree_integrity_not_decoded:
  "process_package_lock E
     (JObj [(''dependencies'', JObj
        [(''n26'', JObj
            [(''resolved'', JStr ''https://x/n26-1.0.tgz''),
             (''integrity'', JStr ''sha512-4FOIbht5e8WoD5MjAvAgEmWlmdguJQLUGUHW5lJhTviPoFjgCQlNJmVfiAIA3xLCEA9pAlT9HluudddEF2PNMw=='')])])])
   = Inr \<lparr>sources = [JObj [(''type'', JStr ''file''), (''url'', JStr ''https://x/n26-1.0.tgz''),
        (''sha512'', JStr ''4FOIbht5e8WoD5MjAvAgEmWlmdguJQLUGUHW5lJhTviPoFjgCQlNJmVfiAIA3xLCEA9pAlT9HluudddEF2PNMw==''),
        (''dest-filename'', JStr ''npm-cache/n26-1.0.tgz'')]], log = []\<rparr>
  \<and> process_package_lock E
     (JObj [(''packages'', JObj
        [(''node_modules/n26'', JObj
            [(''resolved'', JStr ''https://x/n26-1.0.tgz''),
             (''integrity'', JStr ''sha512-4FOIbht5e8WoD5MjAvAgEmWlmdguJQLUGUHW5lJhTviPoFjgCQlNJmVfiAIA3xLCEA9pAlT9HluudddEF2PNMw=='')])])])
   = Inr \<lparr>sources = [JObj [(''type'', JStr ''file''), (''url'', JStr ''https://x/n26-1.0.tgz''),
        (''sha512'', JStr ''e053886e1b797bc5a80f932302f0201265a599d82e2502d41941d6e652614ef88fa058e009094d26655f880200df12c2100f690254fd1e5bae75d7441763cd33''),
        (''dest-filename'', JStr ''npm-cache/n26'')]], log = []\<rparr>"
  by code_simp

section \<open>The two traversals\<close>


lemmas process_deps_cons = process_deps.simps(2)

declare process_deps.simps(2) [simp del]

lemma process_deps_append:
  "process_deps E (xs @ ys) prefix st =
     (case process_deps E xs prefix st of Inl e \<Rightarrow> Inl e | Inr st1 \<Rightarrow> process_deps E ys prefix st1)"
proof (induction xs arbitrary: st)
  case Nil
  show ?case by simp
next
  case (Cons x xs)
  obtain name info where x: "x = (name, info)" by (cases x)
  show ?case
    unfolding x
    by (auto simp: process_deps_cons Cons.IH
          split: json.splits sum.splits option.splits bool.splits prod.splits)
qed



lemma process_deps_not_dict:
  "\<not> is_dict info \<Longrightarrow>
   process_deps E ((name, info) # rest) prefix st = process_deps E rest prefix st"
  by (cases info) (simp_all add: is_dict_def process_deps_cons)

lemma process_deps_unresolved:
  "map_of d ''resolved'' = None \<Longrightarrow>
   process_deps E ((name, JObj d) # rest) prefix st = process_deps E rest prefix st"
  by (simp add: process_deps_cons)



text \<open>
  Claim C10. In the tree form an entry whose value is not a mapping is skipped without
  an error and the entries after it are processed: the traversal gives the result it
  gives without that entry.
\<close>

theorem non_mapping_entry_skipped:
  "\<not> is_dict info \<Longrightarrow>
   process_deps E (xs @ (name, info) # ys) prefix st = process_deps E (xs @ ys) prefix st"
  by (simp add: process_deps_append [of E xs] process_deps_not_dict split: sum.splits)

theorem non_mapping_entry_skipped_witness:
  "\<not> is_dict (JStr ''1.2.3'')
   \<and> process_deps example_env
        ([(''n26'', JObj [(''resolved'', JStr ''https://x/n26-1.0.tgz''), (''integrity'', JStr ''sha512-AAAA'')])] @ (''bad'', JStr ''1.2.3'') # [(''m'', JObj [(''resolved'', JStr ''https://x/m-2.0.tgz''), (''integrity'', JStr ''sha512-AAAB'')])])
        [] no_sources
     = Inr \<lparr>sources =
         [JObj [(''type'', JStr ''file''), (''url'', JStr ''https://x/n26-1.0.tgz''),
                (''sha512'', JStr ''AAAA''), (''dest-filename'', JStr ''npm-cache/n26-1.0.tgz'')],
          JObj [(''type'', JStr ''file''), (''url'', JStr ''https://x/m-2.0.tgz''),
                (''sha512'', JStr ''AAAB''), (''dest-filename'', JStr ''npm-cache/m-2.0.tgz'')]],
         log = []\<rparr>"
proof -
  let ?a' = "(''n26'', JObj [(''resolved'', JStr ''https://x/n26-1.0.tgz''), (''integrity'', JStr ''sha512-AAAA'')])"
  let ?b' = "(''m'', JObj [(''resolved'', JStr ''https://x/m-2.0.tgz''), (''integrity'', JStr ''sha512-AAAB'')])"
  have str: "\<not> is_dict (JStr ''1.2.3'')" by (simp add: is_dict_def)
  have tree: "process_deps example_env ([?a'] @ [?b']) [] no_sources
     = Inr \<lparr>sources =
         [JObj [(''type'', JStr ''file''), (''url'', JStr ''https://x/n26-1.0.tgz''),
                (''sha512'', JStr ''AAAA''), (''dest-filename'', JStr ''npm-cache/n26-1.0.tgz'')],
          JObj [(''type'', JStr ''file''), (''url'', JStr ''https://x/m-2.0.tgz''),
                (''sha512'', JStr ''AAAB''), (''dest-filename'', JStr ''npm-cache/m-2.0.tgz'')]],
         log = []\<rparr>"
    by code_simp
  from non_mapping_entry_skipped [OF str, of example_env "[?a']" "''bad''" "[?b']" "[]" no_sources]
  have w: "process_deps example_env ([?a'] @ (''bad'', JStr ''1.2.3'') # [?b']) [] no_sources
      = process_deps example_env ([?a'] @ [?b']) [] no_sources" .
  show ?thesis
    unfolding w tree using str by simp
qed

section \<open>Nested dependencies\<close>

lemma deps_record_appends:
  "deps_record E d st = Inr (True, st1) \<Longrightarrow> \<exists>r. sources st1 = sources st @ [r]"
  by (auto simp: deps_record_def get_sha512_def Let_def
        split: json.splits if_splits prod.splits option.splits sum.splits)

lemma deps_record_fetch_failed:
  "get d ''resolved'' JNull = url \<Longrightarrow> get d ''integrity'' (JStr []) = JStr integrity \<Longrightarrow>
   \<not> startswith integrity ''sha512-'' \<Longrightarrow> fetch E url = Inl msg \<Longrightarrow>
   deps_record E d st = Inr (False, st\<lparr>log := log st @ [CouldNotDownload url msg]\<rparr>)"
  by (simp add: deps_record_def get_sha512_def)

text \<open>
  Claim C4, as the program has it. The nested dependencies of a tree-form record are
  traversed only after the record itself has emitted a source: a record without the
  key \<^verbatim>\<open>resolved\<close> is skipped together with its nested dependencies, a record whose
  download fails is skipped together with them after the warning, and a record that
  emitted a source has its nested dependencies traversed before the entries after it.
\<close>

theorem nested_traversed_only_after_emit:
  "(map_of d ''resolved'' = None \<longrightarrow>
      process_deps E ((name, JObj d) # rest) prefix st = process_deps E rest prefix st)
   \<and> (map_of d ''resolved'' = Some url \<and> get d ''integrity'' (JStr []) = JStr integrity
        \<and> \<not> startswith integrity ''sha512-'' \<and> fetch E url = Inl msg \<longrightarrow>
      process_deps E ((name, JObj d) # rest) prefix st
        = process_deps E rest prefix (st\<lparr>log := log st @ [CouldNotDownload url msg]\<rparr>))
   \<and> (map_of d ''resolved'' \<noteq> None \<and> deps_record E d st = Inr (True, st1)
        \<and> map_of d ''dependencies'' = Some (JObj nested) \<longrightarrow>
      (\<exists>r. sources st1 = sources st @ [r])
      \<and> process_deps E ((name, JObj d) # rest) prefix st
        = (case process_deps E nested (prefix @ name @ ''/'') st1 of
             Inl e \<Rightarrow> Inl e
           | Inr st2 \<Rightarrow> process_deps E rest prefix st2))"
proof (intro conjI impI)
  assume "map_of d ''resolved'' = None"
  then show "process_deps E ((name, JObj d) # rest) prefix st = process_deps E rest prefix st"
    by (rule process_deps_unresolved)
next
  assume a: "map_of d ''resolved'' = Some url \<and> get d ''integrity'' (JStr []) = JStr integrity
        \<and> \<not> startswith integrity ''sha512-'' \<and> fetch E url = Inl msg"
  then have "get d ''resolved'' JNull = url" by (simp add: get_def)
  with a have "deps_record E d st = Inr (False, st\<lparr>log := log st @ [CouldNotDownload url msg]\<rparr>)"
    by (simp add: deps_record_fetch_failed)
  with a show "process_deps E ((name, JObj d) # rest) prefix st
        = process_deps E rest prefix (st\<lparr>log := log st @ [CouldNotDownload url msg]\<rparr>)"
    by (simp add: process_deps_cons)
next
  assume a: "map_of d ''resolved'' \<noteq> None \<and> deps_record E d st = Inr (True, st1)
        \<and> map_of d ''dependencies'' = Some (JObj nested)"
  then show "\<exists>r. sources st1 = sources st @ [r]"
    by (blast dest: deps_record_appends)
  from a show "process_deps E ((name, JObj d) # rest) prefix st
        = (case process_deps E nested (prefix @ name @ ''/'') st1 of
             Inl e \<Rightarrow> Inl e
           | Inr st2 \<Rightarrow> process_deps E rest prefix st2)"
    by (auto simp: process_deps_cons)
qed

theorem nested_traversed_only_after_emit_witness:
  "map_of [(''version'', JStr ''1.0.0''), (''dependencies'', JObj [(''child'', JObj [(''resolved'', JStr ''https://x/child-1.0.tgz''), (''integrity'', JStr ''sha512-AAAA'')])])] ''resolved'' = None
   \<and> process_deps example_env
        [(''parent'', JObj [(''version'', JStr ''1.0.0''), (''dependencies'', JObj [(''child'', JObj [(''resolved'', JStr ''https://x/child-1.0.tgz''), (''integrity'', JStr ''sha512-AAAA'')])])])]
        [] no_sources
      = Inr no_sources
   \<and> fetch example_env (JStr ''https://x/down-1.0.tgz'') = Inl ''urlopen error''
   \<and> process_deps example_env
        [(''parent'', JObj [(''resolved'', JStr ''https://x/down-1.0.tgz''), (''dependencies'', JObj [(''child'', JObj [(''resolved'', JStr ''https://x/child-1.0.tgz''), (''integrity'', JStr ''sha512-AAAA'')])])])]
        [] no_sources
      = Inr (no_sources\<lparr>log := [CouldNotDownload (JStr ''https://x/down-1.0.tgz'') ''urlopen error'']\<rparr>)
   \<and> process_deps example_env
        [(''parent'', JObj [(''resolved'', JStr ''https://x/p-1.0.tgz''), (''integrity'', JStr ''sha512-AAAB''), (''dependencies'', JObj [(''child'', JObj [(''resolved'', JStr ''https://x/child-1.0.tgz''), (''integrity'', JStr ''sha512-AAAA'')])])])]
        [] no_sources
      = Inr \<lparr>sources =
         [JObj [(''type'', JStr ''file''), (''url'', JStr ''https://x/p-1.0.tgz''),
                (''sha512'', JStr ''AAAB''), (''dest-filename'', JStr ''npm-cache/p-1.0.tgz'')],
          JObj [(''type'', JStr ''file''), (''url'', JStr ''https://x/child-1.0.tgz''),
                (''sha512'', JStr ''AAAA''), (''dest-filename'', JStr ''npm-cache/child-1.0.tgz'')]],
         log = []\<rparr>"
proof -
  let ?child = "(''child'', JObj [(''resolved'', JStr ''https://x/child-1.0.tgz''), (''integrity'', JStr ''sha512-AAAA'')])"
  let ?d1 = "[(''version'', JStr ''1.0.0''), (''dependencies'', JObj [?child])]"
  let ?d2 = "[(''resolved'', JStr ''https://x/down-1.0.tgz''), (''dependencies'', JObj [?child])]"
  let ?d3 = "[(''resolved'', JStr ''https://x/p-1.0.tgz''), (''integrity'', JStr ''sha512-AAAB''), (''dependencies'', JObj [?child])]"
  let ?st1 = "\<lparr>sources = [JObj [(''type'', JStr ''file''), (''url'', JStr ''https://x/p-1.0.tgz''),
                (''sha512'', JStr ''AAAB''), (''dest-filename'', JStr ''npm-cache/p-1.0.tgz'')]], log = []\<rparr>"
  note only = nested_traversed_only_after_emit
  have a1: "map_of ?d1 ''resolved'' = None" by simp
  from only [of ?d1 example_env "''parent''" "[]" "[]" no_sources] a1
  have w1: "process_deps example_env [(''parent'', JObj ?d1)] [] no_sources = Inr no_sources"
    by simp
  have b1: "map_of ?d2 ''resolved'' = Some (JStr ''https://x/down-1.0.tgz'')" by simp
  have b2: "get ?d2 ''integrity'' (JStr []) = JStr []" by (simp add: get_def)
  have b3: "\<not> startswith [] ''sha512-''" by (simp add: startswith_def)
  have b4: "fetch example_env (JStr ''https://x/down-1.0.tgz'') = Inl ''urlopen error''"
    by (simp add: example_env_def)
  from only [of ?d2 example_env "''parent''" "[]" "[]" no_sources "JStr ''https://x/down-1.0.tgz''" "[]" "''urlopen error''"]
    b1 b2 b3 b4
  have w2: "process_deps example_env [(''parent'', JObj ?d2)] [] no_sources
      = Inr (no_sources\<lparr>log := [CouldNotDownload (JStr ''https://x/down-1.0.tgz'') ''urlopen error'']\<rparr>)"
    by (simp add: no_sources_def)
  have c1: "map_of ?d3 ''resolved'' \<noteq> None" by simp
  have c2: "deps_record example_env ?d3 no_sources = Inr (True, ?st1)" by code_simp
  have c3: "map_of ?d3 ''dependencies'' = Some (JObj [?child])" by simp
  have c4: "process_deps example_env [?child] ([] @ ''parent'' @ ''/'') ?st1
      = Inr \<lparr>sources =
         [JObj [(''type'', JStr ''file''), (''url'', JStr ''https://x/p-1.0.tgz''),
                (''sha512'', JStr ''AAAB''), (''dest-filename'', JStr ''npm-cache/p-1.0.tgz'')],
          JObj [(''type'', JStr ''file''), (''url'', JStr ''https://x/child-1.0.tgz''),
                (''sha512'', JStr ''AAAA''), (''dest-filename'', JStr ''npm-cache/child-1.0.tgz'')]],
         log = []\<rparr>"
    by code_simp
  from only [of ?d3 example_env "''parent''" "[]" "[]" no_sources _ _ _ ?st1 "[?child]"] c1 c2 c3
  have "process_deps example_env [(''parent'', JObj ?d3)] [] no_sources
      = (case process_deps example_env [?child] ([] @ ''parent'' @ ''/'') ?st1 of
             Inl e \<Rightarrow> Inl e
           | Inr st2 \<Rightarrow> process_deps example_env [] [] st2)"
    by blast
  then have w3: "process_deps example_env [(''parent'', JObj ?d3)] [] no_sources
      = Inr \<lparr>sources =
         [JObj [(''type'', JStr ''file''), (''url'', JStr ''https://x/p-1.0.tgz''),
                (''sha512'', JStr ''AAAB''), (''dest-filename'', JStr ''npm-cache/p-1.0.tgz'')],
          JObj [(''type'', JStr ''file''), (''url'', JStr ''https://x/child-1.0.tgz''),
                (''sha512'', JStr ''AAAA''), (''dest-filename'', JStr ''npm-cache/child-1.0.tgz'')]],
         log = []\<rparr>"
    unfolding c4 by simp
  from a1 w1 b4 w2 w3 show ?thesis by blast
qed

text \<open>
  Claim C4, as stated, fails: a child with a resolved URL and an integrity string emits
  a source at the top level, and none below a parent that has no resolved URL or whose
  download failed.
\<close>

theorem nested_dependencies_counterexample:
  "process_package_lock example_env
     (JObj [(''dependencies'', JObj
        [(''parent'', JObj
           [(''version'', JStr ''1.0.0''),
            (''dependencies'', JObj
               [(''child'', JObj
                  [(''resolved'', JStr ''https://x/child-1.0.tgz''),
                   (''integrity'', JStr ''sha512-AAAA'')])])])])])
     = Inr \<lparr>sources = [], log = []\<rparr>
   \<and> process_package_lock example_env
     (JObj [(''dependencies'', JObj
        [(''parent'', JObj
           [(''resolved'', JStr ''https://x/down-1.0.tgz''),
            (''dependencies'', JObj
               [(''child'', JObj
                  [(''resolved'', JStr ''https://x/child-1.0.tgz''),
                   (''integrity'', JStr ''sha512-AAAA'')])])])])])
     = Inr \<lparr>sources = [],
            log = [CouldNotDownload (JStr ''https://x/down-1.0.tgz'') ''urlopen error'']\<rparr>
   \<and> process_package_lock example_env
     (JObj [(''dependencies'', JObj
        [(''child'', JObj
           [(''resolved'', JStr ''https://x/child-1.0.tgz''),
            (''integrity'', JStr ''sha512-AAAA'')])])])
     = Inr \<lparr>sources =
         [JObj [(''type'', JStr ''file''), (''url'', JStr ''https://x/child-1.0.tgz''),
                (''sha512'', JStr ''AAAA''), (''dest-filename'', JStr ''npm-cache/child-1.0.tgz'')]],
         log = []\<rparr>"
  by code_simp

section \<open>Integrity strings that do not decode\<close>






section \<open>What the traversals emit\<close>

subsection \<open>Hexadecimal strings\<close>









subsection \<open>The flat form\<close>








subsection \<open>The tree form\<close>













section \<open>Hashes computed from a download\<close>



section \<open>Non-empty URL and hash\<close>




section \<open>The shape of a source\<close>




section \<open>Destination filenames\<close>




end
